theory Spec2Isabelle
  imports Main
begin

section \<open>The documentation build script \<^verbatim>\<open>sphinx-docs/conf.py\<close>\<close>

text \<open>
  \<^verbatim>\<open>conf.py\<close> is a module that Sphinx executes top to bottom. It resolves the
  root directory of the host project, puts it on the module search path, calls the
  stub generator, the plugin documentation importer and the ability CSV exporter, and
  then binds the settings Sphinx reads. Nothing in it catches an exception, so the
  first statement that raises ends the execution of the module.

  The embedding below follows the statements in the order of the file. What the script
  calls but does not define (the interpreter's import machinery, \<^verbatim>\<open>os.getcwd\<close>,
  \<^verbatim>\<open>sphinx.ext.apidoc.main\<close>, the three helpers of \<^verbatim>\<open>plugins.fieldmanual.utils\<close>, the
  clock) is a parameter: a record of functions over a world \<open>'w\<close> that the script never
  inspects itself. The function \<^verbatim>\<open>visit_document\<close> of lines 16 and 17 is defined and
  never called; it has no part in the run.
\<close>

subsection \<open>Paths (\<^verbatim>\<open>pathlib\<close>, POSIX flavour)\<close>

text \<open>
  A \<^verbatim>\<open>pathlib\<close> path is its root (\<^verbatim>\<open>''\<close>, \<^verbatim>\<open>'/'\<close> or \<^verbatim>\<open>'//'\<close>) and the list of its
  components. Parsing drops empty components and \<^verbatim>\<open>'.'\<close>; it keeps \<^verbatim>\<open>'..'\<close>, and
  neither joining nor \<^verbatim>\<open>absolute()\<close> removes it.
\<close>

record path =
  anchor :: string
  tail :: "string list"

text \<open>\<^verbatim>\<open>s.split('/')\<close>\<close>

fun split_sep :: "string \<Rightarrow> string list" where
  "split_sep [] = [[]]"
| "split_sep (c # cs) =
     (if c = CHR ''/'' then [] # split_sep cs
      else (case split_sep cs of [] \<Rightarrow> [[c]] | x # xs \<Rightarrow> (c # x) # xs))"

text \<open>\<^verbatim>\<open>sep.join(xs)\<close>\<close>

fun join_with :: "string \<Rightarrow> string list \<Rightarrow> string" where
  "join_with sep [] = []"
| "join_with sep [x] = x"
| "join_with sep (x # y # ys) = x @ sep @ join_with sep (y # ys)"

text \<open>
  The root of a POSIX path string: exactly two leading slashes are kept as \<^verbatim>\<open>'//'\<close>,
  any other number of leading slashes is \<^verbatim>\<open>'/'\<close>.
\<close>

definition posix_root :: "string \<Rightarrow> string" where
  "posix_root s =
     (if take 1 s = ''/'' then
        (if take 2 s = ''//'' \<and> take 3 s \<noteq> ''///'' then ''//'' else ''/'')
      else [])"

definition Path :: "string \<Rightarrow> path" where
  "Path s =
     \<lparr>anchor = posix_root s,
      tail = filter (\<lambda>p. p \<noteq> [] \<and> p \<noteq> ''.'') (split_sep s)\<rparr>"

definition is_absolute :: "path \<Rightarrow> bool" where
  "is_absolute p = (anchor p \<noteq> [])"

text \<open>\<^verbatim>\<open>p / q\<close>: an absolute right operand replaces the left one.\<close>

definition joinpath :: "path \<Rightarrow> path \<Rightarrow> path" where
  "joinpath p q =
     (if is_absolute q then q else \<lparr>anchor = anchor p, tail = tail p @ tail q\<rparr>)"

text \<open>\<^verbatim>\<open>str(p)\<close>\<close>

definition str :: "path \<Rightarrow> string" where
  "str p =
     (if anchor p = [] \<and> tail p = [] then ''.''
      else anchor p @ join_with ''/'' (tail p))"

subsection \<open>Exceptions, the interpreter state and the outside world\<close>

datatype exn =
    SystemExit int
  | ModuleNotFoundError string
  | FileNotFoundError
  | OSError string
  | OtherException string

text \<open>
  The calls the script makes into the components it wires together, with the arguments
  it passes. The state keeps them in the order they were made, so that a theorem can
  say which component ran and what it was given.
\<close>

datatype call =
    ApidocMain "string list"
  | ImportPluginDocs path path
  | GenerateAbilityCsv path string
  | NewCalderaCommandLexer

record ('w, 'l) pystate =
  world :: 'w
  sys_path :: "string list"
  lexers :: "string \<rightharpoonup> 'l"
  calls :: "call list"

text \<open>
  Everything the script calls and does not define. A call into a component takes the
  world and gives back either the exception it raised or its return value, and the
  world as it left it. \<open>import_module name path w\<close> is the exception that importing
  \<open>name\<close> raises with the search path \<open>path\<close>, if any; an import is taken to leave the
  world as it was. \<open>apidoc_main\<close> returns the \<^verbatim>\<open>int\<close> that \<^verbatim>\<open>sphinx.ext.apidoc.main\<close>
  returns. The module search path and the lexer registry belong to the interpreter state,
  which only the script's own statements change.
\<close>

record ('w, 'l) externals =
  import_module :: "string \<Rightarrow> string list \<Rightarrow> 'w \<Rightarrow> exn option"
  getcwd :: "'w \<Rightarrow> exn + string"
  today_year :: "'w \<Rightarrow> nat"
  apidoc_main :: "string list \<Rightarrow> 'w \<Rightarrow> (exn + int) \<times> 'w"
  import_plugin_docs :: "path \<Rightarrow> path \<Rightarrow> 'w \<Rightarrow> (exn + unit) \<times> 'w"
  generate_ability_csv :: "path \<Rightarrow> string \<Rightarrow> 'w \<Rightarrow> (exn + unit) \<times> 'w"
  CalderaCommandLexer :: "'w \<Rightarrow> (exn + 'l) \<times> 'w"

type_synonym ('w, 'l, 'a) py = "('w, 'l) pystate \<Rightarrow> (exn + 'a) \<times> ('w, 'l) pystate"

definition returns :: "'a \<Rightarrow> ('w, 'l, 'a) py" where
  "returns x s = (Inr x, s)"

text \<open>One statement after another: an exception of the first ends the sequence.\<close>

definition then_do :: "('w, 'l, 'a) py \<Rightarrow> ('a \<Rightarrow> ('w, 'l, 'b) py) \<Rightarrow> ('w, 'l, 'b) py" where
  "then_do m f s = (case m s of (Inl e, s') \<Rightarrow> (Inl e, s') | (Inr x, s') \<Rightarrow> f x s')"

text \<open>A call into a component: it is recorded, then its outcome is the statement's.\<close>

definition invoke :: "call \<Rightarrow> ('w \<Rightarrow> (exn + 'a) \<times> 'w) \<Rightarrow> ('w, 'l, 'a) py" where
  "invoke c f s =
     (case f (world s) of (r, w') \<Rightarrow> (r, s\<lparr>world := w', calls := calls s @ [c]\<rparr>))"

definition py_import :: "('w, 'l) externals \<Rightarrow> string \<Rightarrow> ('w, 'l, unit) py" where
  "py_import ext name s =
     (case import_module ext name (sys_path s) (world s) of
        Some e \<Rightarrow> (Inl e, s)
      | None \<Rightarrow> (Inr (), s))"

text \<open>\<^verbatim>\<open>pathlib.Path.cwd()\<close>\<close>

definition Path_cwd :: "('w, 'l) externals \<Rightarrow> ('w, 'l, path) py" where
  "Path_cwd ext s =
     (case getcwd ext (world s) of Inl e \<Rightarrow> (Inl e, s) | Inr d \<Rightarrow> (Inr (Path d), s))"

text \<open>\<^verbatim>\<open>p.absolute()\<close>: the working directory joined with \<open>p\<close>, unless \<open>p\<close> is absolute.\<close>

definition absolute :: "('w, 'l) externals \<Rightarrow> path \<Rightarrow> ('w, 'l, path) py" where
  "absolute ext p =
     (if is_absolute p then returns p
      else then_do (Path_cwd ext) (\<lambda>cwd. returns (joinpath cwd p)))"

text \<open>\<^verbatim>\<open>sys.path.insert(0, x)\<close>\<close>

definition sys_path_insert0 :: "string \<Rightarrow> ('w, 'l, unit) py" where
  "sys_path_insert0 x s = (Inr (), s\<lparr>sys_path := x # sys_path s\<rparr>)"

text \<open>\<^verbatim>\<open>lexers[name] = lx\<close>\<close>

definition set_lexer :: "string \<Rightarrow> 'l \<Rightarrow> ('w, 'l, unit) py" where
  "set_lexer name lx s = (Inr (), s\<lparr>lexers := (lexers s)(name \<mapsto> lx)\<rparr>)"

text \<open>\<^verbatim>\<open>datetime.date.today().year\<close>\<close>

definition today :: "('w, 'l) externals \<Rightarrow> ('w, 'l, nat) py" where
  "today ext s = (Inr (today_year ext (world s)), s)"

text \<open>\<^verbatim>\<open>str(n)\<close> of a non-negative \<^verbatim>\<open>int\<close>, as the f-string formats the year.\<close>

fun decimal :: "nat \<Rightarrow> string" where
  "decimal n =
     (if n < 10 then [''0123456789'' ! n]
      else decimal (n div 10) @ [''0123456789'' ! (n mod 10)])"

declare decimal.simps [simp del]

subsection \<open>The script\<close>

text \<open>The names the module binds for Sphinx (lines 37 to 65).\<close>

record settings =
  project :: string
  copyright :: string
  author :: string
  master_doc :: string
  extensions :: "string list"
  exclude_patterns :: "string list"
  html_static_path :: "string list"
  html_theme :: string
  html_logo :: string
  html_theme_options :: "(string \<times> bool) list"
  suppress_warnings :: "string list"
  myst_heading_anchors :: int

text \<open>
  Lines 1 to 14: the imports, \<^verbatim>\<open>caldera_root_dir\<close> and the module search path. The value
  of the block is \<^verbatim>\<open>caldera_root_dir\<close>.
\<close>

definition path_setup :: "('w, 'l) externals \<Rightarrow> ('w, 'l, path) py" where
  "path_setup ext =
     then_do (py_import ext ''datetime'') (\<lambda>_.
     then_do (py_import ext ''pathlib'') (\<lambda>_.
     then_do (py_import ext ''sys'') (\<lambda>_.
     then_do (py_import ext ''sphinx.ext.apidoc'') (\<lambda>_.
     then_do (py_import ext ''sphinx.highlighting'') (\<lambda>_.
     then_do (absolute ext (Path ''../../..'')) (\<lambda>caldera_root_dir.
     then_do (sys_path_insert0 (str caldera_root_dir)) (\<lambda>_.
     then_do (py_import ext ''plugins.fieldmanual.utils.plugin_docs'') (\<lambda>_.
     then_do (py_import ext ''plugins.fieldmanual.utils.ability_csv'') (\<lambda>_.
     then_do (py_import ext ''plugins.fieldmanual.utils.command_lexer'') (\<lambda>_.
     returns caldera_root_dir))))))))))"

text \<open>Line 25.\<close>

definition apidocs_argv :: "path \<Rightarrow> string list" where
  "apidocs_argv caldera_root_dir =
     [''-o'', ''_generated'', ''--implicit-namespaces'', ''--force'',
      str (joinpath caldera_root_dir (Path ''app''))]"

text \<open>
  Lines 25 to 33: the stub generator, whose returned status the script drops, then the
  plugin documentation importer and the ability CSV exporter.
\<close>

definition generate_sources :: "('w, 'l) externals \<Rightarrow> path \<Rightarrow> ('w, 'l, unit) py" where
  "generate_sources ext caldera_root_dir =
     then_do (invoke (ApidocMain (apidocs_argv caldera_root_dir))
                (apidoc_main ext (apidocs_argv caldera_root_dir))) (\<lambda>_.
     then_do (Path_cwd ext) (\<lambda>sphinx_root_dir.
     then_do (invoke (ImportPluginDocs caldera_root_dir sphinx_root_dir)
                (import_plugin_docs ext caldera_root_dir sphinx_root_dir)) (\<lambda>_.
     invoke (GenerateAbilityCsv caldera_root_dir ''_generated/abilities.csv'')
       (generate_ability_csv ext caldera_root_dir ''_generated/abilities.csv''))))"

text \<open>Lines 37 to 65: the settings, and the lexer registered under \<^verbatim>\<open>'caldera'\<close>.\<close>

definition configure :: "('w, 'l) externals \<Rightarrow> ('w, 'l, settings) py" where
  "configure ext =
     then_do (today ext) (\<lambda>year.
     then_do (invoke NewCalderaCommandLexer (CalderaCommandLexer ext)) (\<lambda>lx.
     then_do (set_lexer ''caldera'' lx) (\<lambda>_.
     returns
       \<lparr>project = ''caldera'',
        copyright = decimal year @ '', The MITRE Corporation'',
        author = ''The MITRE Corporation'',
        master_doc = ''index'',
        extensions = [''sphinx.ext.autodoc'', ''myst_parser''],
        exclude_patterns = [''_build'', ''Thumbs.db'', ''.DS_Store''],
        html_static_path = [''_static''],
        html_theme = ''sphinx_rtd_theme'',
        html_logo = ''img/caldera-logo.png'',
        html_theme_options = [(''logo_only'', True)],
        suppress_warnings = [''myst.header''],
        myst_heading_anchors = 4\<rparr>)))"

text \<open>The whole module.\<close>

definition conf :: "('w, 'l) externals \<Rightarrow> ('w, 'l, settings) py" where
  "conf ext =
     then_do (path_setup ext) (\<lambda>caldera_root_dir.
     then_do (generate_sources ext caldera_root_dir) (\<lambda>_.
     configure ext))"

subsection \<open>What each component is given\<close>

text \<open>
  \<open>passes_root r c\<close>: the call \<open>c\<close> is made with the arguments the script builds from
  the root \<open>r\<close>. The stub generator gets an argument list whose last element is the string
  of \<open>r / 'app'\<close>; the importer and the exporter get \<open>r\<close> itself.
\<close>

fun passes_root :: "path \<Rightarrow> call \<Rightarrow> bool" where
  "passes_root r (ApidocMain argv) =
     (argv = [''-o'', ''_generated'', ''--implicit-namespaces'', ''--force'',
              str (joinpath r (Path ''app''))])"
| "passes_root r (ImportPluginDocs p b) = (p = r)"
| "passes_root r (GenerateAbilityCsv p t) = (p = r \<and> t = ''_generated/abilities.csv'')"
| "passes_root r NewCalderaCommandLexer = True"

text \<open>
  \<open>passes_root_unchanged r c\<close>: the call \<open>c\<close> is given the root \<open>r\<close> itself; for the stub
  generator, whose arguments are strings, the string of \<open>r\<close> is one of them.
\<close>

fun passes_root_unchanged :: "path \<Rightarrow> call \<Rightarrow> bool" where
  "passes_root_unchanged r (ApidocMain argv) = (str r \<in> set argv)"
| "passes_root_unchanged r (ImportPluginDocs p b) = (p = r)"
| "passes_root_unchanged r (GenerateAbilityCsv p t) = (p = r)"
| "passes_root_unchanged r NewCalderaCommandLexer = True"

subsection \<open>A sample environment\<close>

text \<open>
  A world that is only the working directory, in which every import and every component
  succeeds; the same with a stub generator that exits with status 1; and the state of
  an interpreter started in the documentation directory of a checkout at \<^verbatim>\<open>/caldera\<close>.
\<close>

definition demo_ext :: "(string, unit) externals" where
  "demo_ext =
     \<lparr>import_module = (\<lambda>_ _ _. None),
      getcwd = (\<lambda>w. Inr w),
      today_year = (\<lambda>_. 2024),
      apidoc_main = (\<lambda>_ w. (Inr 0, w)),
      import_plugin_docs = (\<lambda>_ _ w. (Inr (), w)),
      generate_ability_csv = (\<lambda>_ _ w. (Inr (), w)),
      CalderaCommandLexer = (\<lambda>w. (Inr (), w))\<rparr>"

definition failing_stubs_ext :: "(string, unit) externals" where
  "failing_stubs_ext = demo_ext\<lparr>apidoc_main := (\<lambda>_ w. (Inl (SystemExit 1), w))\<rparr>"

definition demo_state :: "(string, unit) pystate" where
  "demo_state =
     \<lparr>world = ''/caldera/plugins/fieldmanual/sphinx-docs'',
      sys_path = [''/usr/lib/python3''],
      lexers = Map.empty,
      calls = []\<rparr>"

definition demo_root :: path where
  "demo_root = joinpath (Path ''/caldera/plugins/fieldmanual/sphinx-docs'') (Path ''../../..'')"

section \<open>The CSV text of the ability export\<close>

text \<open>
  \<^verbatim>\<open>generate_ability_csv\<close> lives in \<^verbatim>\<open>plugins/fieldmanual/utils/ability_csv.py\<close>, which is
  not among the sources; the script above only calls it. What follows is written from the
  specification: a header row and one row per ability, in a fixed column order, each field
  quoted the standard way (RFC 4180) when it holds a delimiter, a quote or a line break.
\<close>

definition dquote :: char where "dquote = CHR 0x22"
definition comma :: char where "comma = CHR '',''"
definition CR :: char where "CR = CHR 0x0D"
definition LF :: char where "LF = CHR 0x0A"

text \<open>
  Modelled from the spec: the characters that make \<^verbatim>\<open>generate_ability_csv\<close> quote a field
  (``fields containing delimiters or newlines'', and the quote itself).
\<close>

definition is_special :: "char \<Rightarrow> bool" where
  "is_special c = (c = comma \<or> c = dquote \<or> c = CR \<or> c = LF)"

definition needs_quoting :: "string \<Rightarrow> bool" where
  "needs_quoting f = list_ex is_special f"

text \<open>
  Modelled from the spec: the field writer of \<^verbatim>\<open>generate_ability_csv\<close> (``escaped per
  standard CSV quoting''): a quoted field stands between double quotes, and a double quote
  inside it is written twice.
\<close>

fun escape_quotes :: "string \<Rightarrow> string" where
  "escape_quotes [] = []"
| "escape_quotes (c # cs) =
     (if c = dquote then dquote # dquote # escape_quotes cs else c # escape_quotes cs)"

definition write_field :: "string \<Rightarrow> string" where
  "write_field f = (if needs_quoting f then dquote # escape_quotes f @ [dquote] else f)"

text \<open>
  Modelled from the spec: the row and file writers of \<^verbatim>\<open>generate_ability_csv\<close>: fields
  separated by commas, every row ended by CR LF.
\<close>

definition write_row :: "string list \<Rightarrow> string" where
  "write_row r = join_with [comma] (map write_field r) @ [CR, LF]"

definition write_csv :: "string list list \<Rightarrow> string" where
  "write_csv rows = concat (map write_row rows)"

text \<open>
  Modelled from the spec: an ability record of \<^verbatim>\<open>generate_ability_csv\<close>, a dictionary from
  field names to values (the example record is \<^verbatim>\<open>{id: "T1", name: "A", desc: "x,y"}\<close>), and
  its row under a column schema. The schema is a parameter, since the specification leaves
  it to the exporter; a field the record lacks is written empty.
\<close>

type_synonym ability = "(string \<times> string) list"

definition ability_row :: "string list \<Rightarrow> ability \<Rightarrow> string list" where
  "ability_row columns a =
     map (\<lambda>c. case map_of a c of None \<Rightarrow> [] | Some v \<Rightarrow> v) columns"

text \<open>
  Modelled from the spec: the text \<^verbatim>\<open>generate_ability_csv\<close> writes to its target: the
  header row, then one row per ability record.
\<close>

definition ability_csv :: "string list \<Rightarrow> ability list \<Rightarrow> string" where
  "ability_csv columns abilities = write_csv (columns # map (ability_row columns) abilities)"

text \<open>
  Modelled from the spec: the reader that ``parse-after-write'' refers to, which is no
  part of the repository: a standard CSV reader as a machine over the characters. Outside
  quotes a comma ends the field and CR LF, CR or LF ends the record; a double quote at the
  start of a field opens a quoted field, in which only a double quote is special: doubled
  it stands for itself, single it closes the quotes. \<open>fld\<close> is the field read so far and
  \<open>row\<close> the fields of the record read so far.
\<close>

datatype pstate = RecordStart | AfterCR | FieldStart | Unquoted | Quoted | QuoteSeen

fun read_csv :: "pstate \<Rightarrow> string \<Rightarrow> string list \<Rightarrow> string \<Rightarrow> string list list" where
  "read_csv st fld row [] =
     (if st = RecordStart \<or> st = AfterCR then [] else [row @ [fld]])"
| "read_csv st fld row (c # cs) =
     (if st = Quoted then
        (if c = dquote then read_csv QuoteSeen fld row cs
         else read_csv Quoted (fld @ [c]) row cs)
      else if st = QuoteSeen \<and> c = dquote then read_csv Quoted (fld @ [c]) row cs
      else if st = AfterCR \<and> c = LF then read_csv RecordStart [] [] cs
      else if c = comma then read_csv FieldStart [] (row @ [fld]) cs
      else if c = CR then (row @ [fld]) # read_csv AfterCR [] [] cs
      else if c = LF then (row @ [fld]) # read_csv RecordStart [] [] cs
      else if c = dquote \<and> (st = RecordStart \<or> st = AfterCR \<or> st = FieldStart)
        then read_csv Quoted [] row cs
      else read_csv Unquoted (fld @ [c]) row cs)"

definition parse_csv :: "string \<Rightarrow> string list list" where
  "parse_csv text = read_csv RecordStart [] [] text"

section \<open>Properties of the script\<close>

subsection \<open>Statements that leave the state alone\<close>

lemma absolute_state: "absolute ext p s = (r, s') \<Longrightarrow> s' = s"
  by (auto simp: absolute_def then_do_def Path_cwd_def returns_def split: sum.splits if_splits)

lemma absolute_of_relative:
  assumes "\<not> is_absolute p" and "getcwd ext (world s) = Inr d"
  shows "absolute ext p s = (Inr (joinpath (Path d) p), s)"
  using assms by (simp add: absolute_def then_do_def Path_cwd_def returns_def)

lemma invoke_effect:
  "invoke c f s = (r, s') \<Longrightarrow>
     calls s' = calls s @ [c] \<and> sys_path s' = sys_path s \<and> lexers s' = lexers s"
  by (auto simp: invoke_def split: prod.splits)

subsection \<open>The three blocks of the script\<close>

lemma path_setup_effect:
  assumes "absolute ext (Path ''../../..'') s = (Inr root, s0)"
    and "path_setup ext s = (r, s1)"
  shows "calls s1 = calls s \<and> world s1 = world s \<and> lexers s1 = lexers s \<and>
         (case r of
            Inl e \<Rightarrow> sys_path s1 = sys_path s \<or> sys_path s1 = str root # sys_path s
          | Inr p \<Rightarrow> p = root \<and> sys_path s1 = str root # sys_path s)"
proof -
  have s0: "s0 = s" using assms(1) by (rule absolute_state)
  show ?thesis
    using assms unfolding s0
    by (auto simp: path_setup_def then_do_def returns_def sys_path_insert0_def py_import_def
        split: sum.splits prod.splits option.splits)
qed

lemma generate_sources_effect:
  assumes "generate_sources ext root s = (r, s')"
  shows "sys_path s' = sys_path s \<and> lexers s' = lexers s \<and>
         (\<exists>tr. calls s' = calls s @ tr \<and> tr \<noteq> [] \<and> list_all (passes_root root) tr \<and>
            (r = Inr () \<longrightarrow>
               (\<exists>b. tr = [ApidocMain (apidocs_argv root), ImportPluginDocs root b,
                          GenerateAbilityCsv root ''_generated/abilities.csv''])))"
  using assms
  by (auto simp: generate_sources_def then_do_def apidocs_argv_def Path_cwd_def invoke_def
      split: sum.splits prod.splits)

lemma configure_effect:
  assumes "configure ext s = (r, s')"
  shows "sys_path s' = sys_path s \<and> calls s' = calls s @ [NewCalderaCommandLexer]"
  using assms
  by (auto simp: configure_def then_do_def today_def set_lexer_def returns_def invoke_def
      split: sum.splits prod.splits)

subsection \<open>A failed stub generation ends the build\<close>

text \<open>
  Claim C9. If the stub generation step fails, that is, \<^verbatim>\<open>apidoc.main\<close> raises (\<^verbatim>\<open>SystemExit\<close>
  included) when the script calls it with the arguments of line 25, the failure is the
  outcome of the whole script: \<open>conf\<close> ends with that very exception, in the state the stub
  generator left, and the call of the stub generator is the last call made. Neither the
  plugin documentation importer nor the CSV exporter runs, no lexer is registered and no
  setting is bound.
\<close>

theorem stub_generation_failure_is_fatal:
  assumes "path_setup ext s = (Inr caldera_root_dir, s1)"
    and "apidoc_main ext (apidocs_argv caldera_root_dir) (world s1) = (Inl e, w2)"
  shows "conf ext s =
           (Inl e, s1\<lparr>world := w2,
                      calls := calls s1 @ [ApidocMain (apidocs_argv caldera_root_dir)]\<rparr>)"
proof -
  let ?argv = "apidocs_argv caldera_root_dir"
  have "invoke (ApidocMain ?argv) (apidoc_main ext ?argv) s1 =
          (Inl e, s1\<lparr>world := w2, calls := calls s1 @ [ApidocMain ?argv]\<rparr>)"
    using assms(2) by (simp add: invoke_def)
  then have "generate_sources ext caldera_root_dir s1 =
          (Inl e, s1\<lparr>world := w2, calls := calls s1 @ [ApidocMain ?argv]\<rparr>)"
    by (simp add: generate_sources_def then_do_def)
  with assms(1) show ?thesis
    by (simp add: conf_def then_do_def)
qed

text \<open>
  In the sample environment with the failing stub generator, the script ends with
  \<^verbatim>\<open>SystemExit(1)\<close> after the one call.
\<close>

theorem stub_generation_failure_is_fatal_witness:
  "path_setup failing_stubs_ext demo_state =
     (Inr demo_root, demo_state\<lparr>sys_path := [str demo_root, ''/usr/lib/python3'']\<rparr>) \<and>
   apidoc_main failing_stubs_ext (apidocs_argv demo_root)
       (world (demo_state\<lparr>sys_path := [str demo_root, ''/usr/lib/python3'']\<rparr>)) =
     (Inl (SystemExit 1), ''/caldera/plugins/fieldmanual/sphinx-docs'') \<and>
   conf failing_stubs_ext demo_state =
     (Inl (SystemExit 1),
      demo_state\<lparr>sys_path := [str demo_root, ''/usr/lib/python3''],
                 calls := [ApidocMain (apidocs_argv demo_root)]\<rparr>)"
proof -
  have h1: "path_setup failing_stubs_ext demo_state =
     (Inr demo_root, demo_state\<lparr>sys_path := [str demo_root, ''/usr/lib/python3'']\<rparr>)"
    by (simp add: path_setup_def then_do_def py_import_def absolute_def is_absolute_def
        Path_def posix_root_def Path_cwd_def sys_path_insert0_def returns_def
        failing_stubs_ext_def demo_ext_def demo_state_def demo_root_def)
  have h2: "apidoc_main failing_stubs_ext (apidocs_argv demo_root)
       (world (demo_state\<lparr>sys_path := [str demo_root, ''/usr/lib/python3'']\<rparr>)) =
     (Inl (SystemExit 1), ''/caldera/plugins/fieldmanual/sphinx-docs'')"
    by (simp add: failing_stubs_ext_def demo_ext_def demo_state_def)
  from stub_generation_failure_is_fatal [OF h1 h2] h1 h2 show ?thesis
    by (simp add: demo_state_def)
qed

subsection \<open>The root directory is resolved once\<close>

text \<open>
  Claim C10, as amended. Let \<open>root\<close> be the value of \<^verbatim>\<open>Path('../../..').absolute()\<close> in the
  state the script starts in: the working directory joined with \<^verbatim>\<open>'../../..'\<close>. Whatever
  the components do to the world, and however far the script gets, every call it makes
  is built from that one value: the importer and the exporter are given \<open>root\<close> itself,
  and the stub generator is given an argument list whose last element is the string of
  \<open>root\<close> joined with \<^verbatim>\<open>'app'\<close>. Once any component has been called, the string of \<open>root\<close>
  stands first on the module search path. A script that runs to its end has made exactly
  four calls: stub generator, importer, exporter, lexer constructor.
\<close>

theorem caldera_root_dir_resolved_once:
  assumes "absolute ext (Path ''../../..'') s = (Inr root, s0)"
  shows "\<exists>tr. calls (snd (conf ext s)) = calls s @ tr \<and>
           list_all (passes_root root) tr \<and>
           (tr \<noteq> [] \<longrightarrow> sys_path (snd (conf ext s)) = str root # sys_path s) \<and>
           ((\<exists>cfg. fst (conf ext s) = Inr cfg) \<longrightarrow>
              (\<exists>b. tr = [ApidocMain [''-o'', ''_generated'', ''--implicit-namespaces'',
                                      ''--force'', str (joinpath root (Path ''app''))],
                         ImportPluginDocs root b,
                         GenerateAbilityCsv root ''_generated/abilities.csv'',
                         NewCalderaCommandLexer]))"
proof (cases "path_setup ext s")
  case (Pair r s1)
  note ps = path_setup_effect [OF assms Pair]
  show ?thesis
  proof (cases r)
    case (Inl e)
    then have "conf ext s = (Inl e, s1)"
      using Pair by (simp add: conf_def then_do_def)
    then show ?thesis using ps by simp
  next
    case (Inr p)
    then have p: "p = root" and sp: "sys_path s1 = str root # sys_path s"
      using ps by simp_all
    obtain r2 s2 where gs: "generate_sources ext root s1 = (r2, s2)"
      by (cases "generate_sources ext root s1")
    from generate_sources_effect [OF gs] obtain tr where
      tr: "sys_path s2 = sys_path s1" "calls s2 = calls s1 @ tr" "tr \<noteq> []"
        "list_all (passes_root root) tr"
        "r2 = Inr () \<longrightarrow>
           (\<exists>b. tr = [ApidocMain (apidocs_argv root), ImportPluginDocs root b,
                      GenerateAbilityCsv root ''_generated/abilities.csv''])"
      by blast
    show ?thesis
    proof (cases r2)
      case (Inl e)
      then have "conf ext s = (Inl e, s2)"
        using Pair Inr p gs by (simp add: conf_def then_do_def)
      then show ?thesis using ps tr sp by simp
    next
      case (Inr u)
      obtain r3 s3 where cf: "configure ext s2 = (r3, s3)"
        by (cases "configure ext s2")
      have c: "conf ext s = (r3, s3)"
        using Pair \<open>r = Inr p\<close> p gs Inr cf by (simp add: conf_def then_do_def)
      from tr(5) Inr obtain b where
        b: "tr = [ApidocMain (apidocs_argv root), ImportPluginDocs root b,
                  GenerateAbilityCsv root ''_generated/abilities.csv'']"
        by auto
      show ?thesis
        using configure_effect [OF cf] ps tr(1,2,4) sp b unfolding c
        by (simp add: apidocs_argv_def)
    qed
  qed
qed

text \<open>
  In the sample environment the script runs to its end; the root is the documentation
  directory followed by \<^verbatim>\<open>/../../..\<close>, unnormalised, and the four calls are made with it.
\<close>

theorem caldera_root_dir_resolved_once_witness:
  "absolute demo_ext (Path ''../../..'') demo_state = (Inr demo_root, demo_state) \<and>
   (\<exists>cfg. fst (conf demo_ext demo_state) = Inr cfg) \<and>
   str demo_root = ''/caldera/plugins/fieldmanual/sphinx-docs/../../..'' \<and>
   sys_path (snd (conf demo_ext demo_state)) =
     [''/caldera/plugins/fieldmanual/sphinx-docs/../../..'', ''/usr/lib/python3''] \<and>
   (\<exists>b. calls (snd (conf demo_ext demo_state)) =
      [ApidocMain [''-o'', ''_generated'', ''--implicit-namespaces'', ''--force'',
                   ''/caldera/plugins/fieldmanual/sphinx-docs/../../../app''],
       ImportPluginDocs demo_root b,
       GenerateAbilityCsv demo_root ''_generated/abilities.csv'',
       NewCalderaCommandLexer])"
proof -
  have h: "absolute demo_ext (Path ''../../..'') demo_state = (Inr demo_root, demo_state)"
    by (simp add: absolute_def is_absolute_def Path_def posix_root_def then_do_def
        Path_cwd_def demo_ext_def demo_state_def demo_root_def returns_def)
  have ok: "\<exists>cfg. fst (conf demo_ext demo_state) = Inr cfg"
    by (simp add: conf_def path_setup_def generate_sources_def configure_def then_do_def
        py_import_def absolute_def is_absolute_def Path_def posix_root_def Path_cwd_def
        sys_path_insert0_def invoke_def today_def set_lexer_def returns_def
        demo_ext_def demo_state_def)
  have st: "str demo_root = ''/caldera/plugins/fieldmanual/sphinx-docs/../../..''"
    by (simp add: str_def joinpath_def is_absolute_def Path_def posix_root_def demo_root_def)
  have app: "str (joinpath demo_root (Path ''app'')) =
      ''/caldera/plugins/fieldmanual/sphinx-docs/../../../app''"
    by (simp add: str_def joinpath_def is_absolute_def Path_def posix_root_def demo_root_def)
  from caldera_root_dir_resolved_once [OF h] ok h st app show ?thesis
    by (auto simp: demo_state_def)
qed

text \<open>
  The claim as it was stated has the stub generator given the root itself. In the sample
  environment the root is \<^verbatim>\<open>/caldera/plugins/fieldmanual/sphinx-docs/../../..\<close>, and that
  string is none of the arguments of the stub generator: the last of them is the
  \<^verbatim>\<open>app\<close> directory under the root.
\<close>

theorem root_passed_unchanged_counterexample:
  "\<not> list_all (passes_root_unchanged demo_root) (calls (snd (conf demo_ext demo_state)))"
  by (simp add: conf_def path_setup_def generate_sources_def configure_def then_do_def
      py_import_def absolute_def is_absolute_def Path_def posix_root_def Path_cwd_def
      sys_path_insert0_def invoke_def today_def set_lexer_def returns_def
      demo_ext_def demo_state_def demo_root_def apidocs_argv_def str_def joinpath_def)

section \<open>Properties of the CSV text\<close>

lemma special_distinct [simp]:
  "comma \<noteq> dquote" "comma \<noteq> CR" "comma \<noteq> LF" "dquote \<noteq> CR" "dquote \<noteq> LF" "CR \<noteq> LF"
  "dquote \<noteq> comma" "CR \<noteq> comma" "LF \<noteq> comma" "CR \<noteq> dquote" "LF \<noteq> dquote" "LF \<noteq> CR"
  by (simp_all add: comma_def dquote_def CR_def LF_def)

subsection \<open>Separators outside quotes\<close>

lemma read_csv_comma:
  "st \<noteq> Quoted \<Longrightarrow>
     read_csv st fld row (comma # cs) = read_csv FieldStart [] (row @ [fld]) cs"
  by simp

lemma read_csv_CRLF:
  "st \<noteq> Quoted \<Longrightarrow>
     read_csv st fld row (CR # LF # cs) = (row @ [fld]) # read_csv RecordStart [] [] cs"
  by simp

subsection \<open>Reading back one field\<close>

lemma read_csv_quoted_body:
  "read_csv Quoted fld row (escape_quotes f @ dquote # rest) =
     read_csv QuoteSeen (fld @ f) row rest"
  by (induction f arbitrary: fld) simp_all

lemma read_csv_plain:
  assumes "\<not> list_ex is_special f" and "st \<noteq> Quoted" and "st \<noteq> QuoteSeen"
  shows "read_csv st fld row (f @ rest) =
           read_csv (if f = [] then st else Unquoted) (fld @ f) row rest"
  using assms
proof (induction f arbitrary: st fld)
  case Nil
  then show ?case by simp
next
  case (Cons c f)
  from Cons.prems(1) have f: "\<not> list_ex is_special f" and "\<not> is_special c"
    by simp_all
  then have c: "c \<noteq> comma" "c \<noteq> dquote" "c \<noteq> CR" "c \<noteq> LF"
    by (simp_all add: is_special_def)
  have "read_csv st fld row ((c # f) @ rest) = read_csv Unquoted (fld @ [c]) row (f @ rest)"
    using c Cons.prems(2,3) by simp
  also have "\<dots> = read_csv (if f = [] then Unquoted else Unquoted) ((fld @ [c]) @ f) row rest"
    using Cons.IH [OF f, of Unquoted "fld @ [c]"] by simp
  finally show ?case by simp
qed

lemma read_csv_field:
  assumes "st = RecordStart \<or> st = FieldStart"
  shows "read_csv st [] row (write_field f @ rest) =
           read_csv (if needs_quoting f then QuoteSeen else if f = [] then st else Unquoted)
             f row rest"
proof (cases "needs_quoting f")
  case True
  have "read_csv st [] row (write_field f @ rest) =
          read_csv Quoted [] row (escape_quotes f @ dquote # rest)"
    using assms True by (auto simp: write_field_def)
  then show ?thesis using True by (simp add: read_csv_quoted_body)
next
  case False
  then have "\<not> list_ex is_special f" by (simp add: needs_quoting_def)
  from read_csv_plain [OF this, of st "[]" row rest] assms False show ?thesis
    by (auto simp: write_field_def)
qed

lemma read_csv_field_comma:
  assumes "st = RecordStart \<or> st = FieldStart"
  shows "read_csv st [] row (write_field f @ comma # cs) =
           read_csv FieldStart [] (row @ [f]) cs"
  using assms
  by (auto simp: read_csv_field [OF assms] simp del: read_csv.simps intro!: read_csv_comma)

lemma read_csv_field_CRLF:
  assumes "st = RecordStart \<or> st = FieldStart"
  shows "read_csv st [] row (write_field f @ CR # LF # cs) =
           (row @ [f]) # read_csv RecordStart [] [] cs"
  using assms
  by (auto simp: read_csv_field [OF assms] simp del: read_csv.simps intro!: read_csv_CRLF)

subsection \<open>Reading back rows\<close>

lemma write_row_single: "write_row [f] = write_field f @ [CR, LF]"
  by (simp add: write_row_def)

lemma write_row_Cons:
  "write_row (f # g # gs) = write_field f @ comma # write_row (g # gs)"
  by (simp add: write_row_def)

lemma read_csv_row:
  assumes "r \<noteq> []" and "st = RecordStart \<or> st = FieldStart"
  shows "read_csv st [] row (write_row r @ rest) =
           (row @ r) # read_csv RecordStart [] [] rest"
  using assms
proof (induction r arbitrary: st row rule: induct_list012)
  case 1
  then show ?case by simp
next
  case (2 f)
  then show ?case
    by (simp add: write_row_single read_csv_field_CRLF del: read_csv.simps)
next
  case (3 f g gs)
  have "read_csv st [] row (write_row (f # g # gs) @ rest) =
          read_csv FieldStart [] (row @ [f]) (write_row (g # gs) @ rest)"
    using 3(4) by (simp add: write_row_Cons read_csv_field_comma del: read_csv.simps)
  also have "\<dots> = ((row @ [f]) @ g # gs) # read_csv RecordStart [] [] rest"
    by (rule 3(2)) simp_all
  finally show ?case by simp
qed

lemma read_csv_rows:
  assumes "\<forall>r \<in> set rows. r \<noteq> []"
  shows "read_csv RecordStart [] [] (write_csv rows) = rows"
  using assms
proof (induction rows)
  case Nil
  then show ?case by (simp add: write_csv_def)
next
  case (Cons r rows)
  have "read_csv RecordStart [] [] (write_csv (r # rows)) =
          read_csv RecordStart [] [] (write_row r @ write_csv rows)"
    by (simp add: write_csv_def)
  also have "\<dots> = ([] @ r) # read_csv RecordStart [] [] (write_csv rows)"
    using Cons.prems by (intro read_csv_row) simp_all
  finally show ?case using Cons by simp
qed

text \<open>The example of the specification: one record, whose description holds a comma.\<close>

lemma ability_csv_example:
  "ability_csv [''id'', ''name'', ''desc'']
       [[(''id'', ''T1''), (''name'', ''A''), (''desc'', ''x,y'')]] =
     ''id,name,desc'' @ [CR, LF] @
     ''T1,A,'' @ [dquote] @ ''x,y'' @ [dquote] @ [CR, LF]"
  by (simp add: ability_csv_def ability_row_def write_csv_def write_row_def write_field_def
      needs_quoting_def is_special_def comma_def dquote_def CR_def LF_def)

subsection \<open>Parse after write\<close>

text \<open>
  Claim C5. Whatever the field values of the ability records hold (commas, double quotes,
  carriage returns and line feeds included), reading the exported CSV text with a
  standard reader gives back the header row and, for each ability in order, exactly the
  field values that were written. The schema has at least one column.
\<close>

theorem ability_csv_roundtrip:
  assumes "columns \<noteq> []"
  shows "parse_csv (ability_csv columns abilities) =
           columns # map (ability_row columns) abilities"
  unfolding parse_csv_def ability_csv_def
  using assms by (intro read_csv_rows) (auto simp: ability_row_def)

text \<open>
  Two records under the schema of the specification's example: the first is that example,
  the second has a double quote in its name and a line break in its description.
\<close>

theorem ability_csv_roundtrip_witness:
  "[''id'', ''name'', ''desc''] \<noteq> [] \<and>
   parse_csv (ability_csv [''id'', ''name'', ''desc'']
       [[(''id'', ''T1''), (''name'', ''A''), (''desc'', ''x,y'')],
        [(''id'', ''T2''), (''name'', [CHR ''a'', dquote, CHR ''b'']),
         (''desc'', [CHR ''l'', CR, LF, CHR ''m''])]]) =
     [[''id'', ''name'', ''desc''],
      [''T1'', ''A'', ''x,y''],
      [''T2'', [CHR ''a'', dquote, CHR ''b''], [CHR ''l'', CR, LF, CHR ''m'']]]"
  using ability_csv_roundtrip [of "[''id'', ''name'', ''desc'']"
       "[[(''id'', ''T1''), (''name'', ''A''), (''desc'', ''x,y'')],
         [(''id'', ''T2''), (''name'', [CHR ''a'', dquote, CHR ''b'']),
          (''desc'', [CHR ''l'', CR, LF, CHR ''m''])]]"]
  by (simp add: ability_row_def)

end
